theory Spec2Isabelle
  imports Main "HOL-Library.Sublist" "HOL-Library.AList" "HOL-Library.Multiset"
begin

section \<open>Data model (src/types/skill.ts)\<close>

text \<open>
  Values of TypeScript type \<^verbatim>\<open>unknown\<close> (a parameter default, the parameter bag handed
  to a skill, the value a script returns) are held as their JSON text.
\<close>

type_synonym json = string

datatype param_type = PString | PNumber | PBoolean | PObject | PArray

record SkillParameter =
  ptype :: param_type
  pdescription :: string
  required :: bool
  pdefault :: "json option"

text \<open>
  \<^verbatim>\<open>Partial<M365Skill>\<close>: every field may be absent (\<open>None\<close> is JavaScript's
  \<^verbatim>\<open>undefined\<close>). The storage layer casts the object it was given to
  \<^verbatim>\<open>M365Skill\<close> without any check and writes it as it is, so the same record type
  stands for the stored documents. The field \<^verbatim>\<open>id\<close> is called \<open>id'\<close> here.
  \<^verbatim>\<open>usageCount\<close> is a JavaScript number that only ever holds small whole numbers; it
  is an \<open>int\<close>.
\<close>

record skill =
  id' :: "string option"
  name :: "string option"
  description :: "string option"
  category :: "string option"
  code :: "string option"
  parameters :: "(string \<times> SkillParameter) list option"
  returnType :: "string option"
  author :: "string option"
  tags :: "string list option"
  createdAt :: "string option"
  updatedAt :: "string option"
  usageCount :: "int option"
  isPublic :: "bool option"
  isBuiltin :: "bool option"

record SkillFilters =
  filter_category :: "string option"
  filter_tags :: "string list option"
  filter_author :: "string option"
  filter_isPublic :: "bool option"
  filter_isBuiltin :: "bool option"

text \<open>JavaScript truthiness of an optional string: \<^verbatim>\<open>undefined\<close> and \<^verbatim>\<open>""\<close> are falsy.\<close>

definition truthy :: "string option \<Rightarrow> bool" where
  "truthy s = (case s of None \<Rightarrow> False | Some t \<Rightarrow> t \<noteq> [])"

text \<open>An optional string spliced into a template literal.\<close>

definition template :: "string option \<Rightarrow> string" where
  "template s = (case s of None \<Rightarrow> ''undefined'' | Some t \<Rightarrow> t)"

section \<open>The skill store (SkillStorage)\<close>

text \<open>
  The storage directory: the file \<^verbatim>\<open><k>.json\<close> holding document \<open>s\<close> is the pair
  \<open>(k, s)\<close>, in the order \<^verbatim>\<open>readdir\<close> lists the files. Only files written by
  \<^verbatim>\<open>save\<close> are in it, so every file ends in \<^verbatim>\<open>.json\<close> and parses.
  \<^verbatim>\<open>writeFile\<close> replaces a file in place or adds it at the end, \<^verbatim>\<open>unlink\<close>
  removes it; identifiers are plain file-name stems, and the file system itself does not fail.
\<close>

type_synonym store = "(string \<times> skill) list"

definition writeFile :: "store \<Rightarrow> string \<Rightarrow> skill \<Rightarrow> store" where
  "writeFile st k s = AList.update k s st"

definition readFile :: "store \<Rightarrow> string \<Rightarrow> skill option" where
  "readFile st k = map_of st k"

definition unlink :: "store \<Rightarrow> string \<Rightarrow> store" where
  "unlink st k = AList.delete k st"

text \<open>
  What \<^verbatim>\<open>save\<close> asks of its environment: the value of \<^verbatim>\<open>randomUUID()\<close> and the
  two readings of \<^verbatim>\<open>new Date().toISOString()\<close>, the first taken when a new record is
  stamped with \<^verbatim>\<open>createdAt\<close>, the second when \<^verbatim>\<open>updatedAt\<close> is refreshed.
\<close>

record env =
  randomUUID :: string
  now_createdAt :: string
  now_updatedAt :: string

datatype error = MissingRequiredFields


text \<open>The assignments \<^verbatim>\<open>save\<close> makes to the object it was given, before it validates.\<close>

definition stamp :: "env \<Rightarrow> skill \<Rightarrow> skill" where
  "stamp e skill =
     (let s1 = (if \<not> truthy (id' skill)
                then skill\<lparr> id' := Some (randomUUID e),
                             createdAt := Some (now_createdAt e),
                             usageCount := Some 0,
                             isBuiltin := (if isBuiltin skill = None then Some False
                                           else isBuiltin skill) \<rparr>
                else skill)
      in s1\<lparr> updatedAt := Some (now_updatedAt e) \<rparr>)"

definition missing_required :: "skill \<Rightarrow> bool" where
  "missing_required skill \<longleftrightarrow>
     \<not> truthy (name skill) \<or> \<not> truthy (description skill) \<or>
     \<not> truthy (code skill) \<or> \<not> truthy (category skill)"

text \<open>
  \<^verbatim>\<open>save\<close> returns the saved record or throws; the store after the call is the second
  component in both cases.
\<close>

definition save :: "env \<Rightarrow> skill \<Rightarrow> store \<Rightarrow> (error + skill) \<times> store" where
  "save e skill st =
     (let fullSkill = stamp e skill
      in if missing_required fullSkill then (Inl MissingRequiredFields, st)
         else (Inr fullSkill, writeFile st (template (id' fullSkill)) fullSkill))"

definition get :: "store \<Rightarrow> string \<Rightarrow> skill option" where
  "get st i = readFile st i"

text \<open>The chain of \<^verbatim>\<open>continue\<close> statements in \<^verbatim>\<open>list\<close>: True when the record is skipped.\<close>

definition skipped :: "SkillFilters option \<Rightarrow> skill \<Rightarrow> bool" where
  "skipped filters skill =
     (case filters of
        None \<Rightarrow> False
      | Some f \<Rightarrow>
          if truthy (filter_category f) \<and> category skill \<noteq> filter_category f then True
          else if truthy (filter_author f) \<and> author skill \<noteq> filter_author f then True
          else if filter_isPublic f \<noteq> None \<and> isPublic skill \<noteq> filter_isPublic f then True
          else if filter_isBuiltin f \<noteq> None
                  \<and> Some (isBuiltin skill = Some True) \<noteq> filter_isBuiltin f then True
          else if (case filter_tags f of
                     None \<Rightarrow> False
                   | Some ftags \<Rightarrow>
                       \<not> list_ex (\<lambda>tag. case tags skill of None \<Rightarrow> False
                                                     | Some ts \<Rightarrow> tag \<in> set ts) ftags) then True
          else False)"

text \<open>The loop over the directory, pushing every record that is not skipped.\<close>

fun collect :: "SkillFilters option \<Rightarrow> store \<Rightarrow> skill list \<Rightarrow> skill list" where
  "collect filters [] skills = skills"
| "collect filters ((file, skill) # files) skills =
     (if skipped filters skill then collect filters files skills
      else collect filters files (skills @ [skill]))"

text \<open>
  The comparator \<^verbatim>\<open>(a, b) => b.usageCount - a.usageCount\<close>. With a count absent the
  difference is NaN, which \<^verbatim>\<open>Array.prototype.sort\<close> reads as 0.
\<close>

definition compareUsage :: "skill \<Rightarrow> skill \<Rightarrow> int" where
  "compareUsage a b =
     (case (usageCount b, usageCount a) of
        (Some x, Some y) \<Rightarrow> x - y
      | _ \<Rightarrow> 0)"

text \<open>
  \<^verbatim>\<open>Array.prototype.sort\<close> is a stable sort: an element stays ahead of the later
  elements the comparator does not put before it.
\<close>

fun insert_sorted :: "('a \<Rightarrow> 'a \<Rightarrow> int) \<Rightarrow> 'a \<Rightarrow> 'a list \<Rightarrow> 'a list" where
  "insert_sorted cmp x [] = [x]"
| "insert_sorted cmp x (y # ys) =
     (if cmp x y \<le> 0 then x # y # ys else y # insert_sorted cmp x ys)"

definition js_sort :: "('a \<Rightarrow> 'a \<Rightarrow> int) \<Rightarrow> 'a list \<Rightarrow> 'a list" where
  "js_sort cmp xs = foldr (insert_sorted cmp) xs []"

definition list_skills :: "SkillFilters option \<Rightarrow> store \<Rightarrow> skill list" where
  "list_skills filters st = js_sort compareUsage (collect filters st [])"

definition getByName :: "store \<Rightarrow> string \<Rightarrow> skill option" where
  "getByName st n = find (\<lambda>s. name s = Some n) (list_skills None st)"

definition delete :: "store \<Rightarrow> string \<Rightarrow> bool \<times> store" where
  "delete st i = (if readFile st i = None then (False, st) else (True, unlink st i))"


section \<open>The code validator (SkillStorage.validateCode)\<close>

text \<open>\<^verbatim>\<open>String.prototype.includes\<close>: the pattern occurs at some position of the text.\<close>

fun starts_with :: "string \<Rightarrow> string \<Rightarrow> bool" where
  "starts_with text [] = True"
| "starts_with [] (p # ps) = False"
| "starts_with (c # cs) (p # ps) = (c = p \<and> starts_with cs ps)"

fun str_includes :: "string \<Rightarrow> string \<Rightarrow> bool" where
  "str_includes [] pattern = (pattern = [])"
| "str_includes (c # cs) pattern = (starts_with (c # cs) pattern \<or> str_includes cs pattern)"

definition forbidden :: "string list" where
  "forbidden =
     [''eval('', ''Function('', ''require('', ''import('', ''__dirname'', ''__filename'',
      ''process.exit'', ''child_process'']"

record validation =
  valid :: bool
  errors :: "string list"

fun scan_patterns :: "string \<Rightarrow> string list \<Rightarrow> string list \<Rightarrow> string list" where
  "scan_patterns text [] errs = errs"
| "scan_patterns text (pattern # patterns) errs =
     (if str_includes text pattern
      then scan_patterns text patterns (errs @ [''Forbidden pattern detected: '' @ pattern])
      else scan_patterns text patterns errs)"

definition validateCode :: "string \<Rightarrow> validation" where
  "validateCode text =
     (let errs = scan_patterns text forbidden []
      in \<lparr> valid = (length errs = 0), errors = errs \<rparr>)"

section \<open>The built-in catalogue (src/builtin-skills.ts)\<close>

definition sq :: string where
  "sq = [CHR 0x27]"

definition nl :: string where
  "nl = [CHR 0x0A]"

definition code_summarizeTodaysEmails :: string where
  \<open>code_summarizeTodaysEmails = concat [
    nl,
    ''      const today = new Date();'' @ nl,
    ''      today.setHours(0, 0, 0, 0);'' @ nl,
    ''      const todayISO = today.toISOString();'' @ nl,
    nl,
    ''      const tomorrow = new Date(today);'' @ nl,
    ''      tomorrow.setDate(tomorrow.getDate() + 1);'' @ nl,
    ''      const tomorrowISO = tomorrow.toISOString();'' @ nl,
    nl,
    ''      const messages = await m365.mail.list({'' @ nl,
    ''        filter: `receivedDateTime ge ${todayISO} and receivedDateTime lt ${tomorrowISO}`,'' @ nl,
    ''        select: '' @ sq @ ''from,subject,importance,isRead,hasAttachments'' @ sq @ '','' @ nl,
    ''        top: 100'' @ nl,
    ''      });'' @ nl,
    nl,
    ''      const bySender = {};'' @ nl,
    ''      let unreadCount = 0;'' @ nl,
    ''      let urgentCount = 0;'' @ nl,
    nl,
    ''      for (const msg of messages.value) {'' @ nl,
    ''        const sender = msg.from.emailAddress.address;'' @ nl,
    ''        if (!bySender[sender]) {'' @ nl,
    ''          bySender[sender] = { count: 0, unread: 0, urgent: 0 };'' @ nl,
    ''        }'' @ nl,
    ''        bySender[sender].count++;'' @ nl,
    ''        if (!msg.isRead) {'' @ nl,
    ''          bySender[sender].unread++;'' @ nl,
    ''          unreadCount++;'' @ nl,
    ''        }'' @ nl,
    ''        if (msg.importance === '' @ sq @ ''high'' @ sq @ '') {'' @ nl,
    ''          bySender[sender].urgent++;'' @ nl,
    ''          urgentCount++;'' @ nl,
    ''        }'' @ nl,
    ''      }'' @ nl,
    nl,
    ''      const topSenders = Object.entries(bySender)'' @ nl,
    ''        .sort((a, b) => b[1].count - a[1].count)'' @ nl,
    ''        .slice(0, 5)'' @ nl,
    ''        .map(([email, stats]) => ({ email, ...stats }));'' @ nl,
    nl,
    ''      return {'' @ nl,
    ''        date: today.toISOString().split('' @ sq @ ''T'' @ sq @ '')[0],'' @ nl,
    ''        total: messages.value.length,'' @ nl,
    ''        unread: unreadCount,'' @ nl,
    ''        urgent: urgentCount,'' @ nl,
    ''        topSenders'' @ nl,
    ''      };'' @ nl,
    ''    '']\<close>

definition code_getUnreadUrgentEmails :: string where
  \<open>code_getUnreadUrgentEmails = concat [
    nl,
    ''      const messages = await m365.mail.list({'' @ nl,
    ''        filter: "isRead eq false and importance eq '' @ sq @ ''high'' @ sq @ ''",'' @ nl,
    ''        select: '' @ sq @ ''from,subject,receivedDateTime,bodyPreview'' @ sq @ '','' @ nl,
    ''        orderby: ['' @ sq @ ''receivedDateTime desc'' @ sq @ ''],'' @ nl,
    ''        top: 50'' @ nl,
    ''      });'' @ nl,
    nl,
    ''      return messages.value.map(m => ({'' @ nl,
    ''        from: m.from.emailAddress.address,'' @ nl,
    ''        subject: m.subject,'' @ nl,
    ''        preview: m.bodyPreview?.substring(0, 100),'' @ nl,
    ''        received: m.receivedDateTime'' @ nl,
    ''      }));'' @ nl,
    ''    '']\<close>

definition code_analyzeTodaysMeetings :: string where
  \<open>code_analyzeTodaysMeetings = concat [
    nl,
    ''      const today = new Date();'' @ nl,
    ''      today.setHours(0, 0, 0, 0);'' @ nl,
    ''      const todayISO = today.toISOString();'' @ nl,
    nl,
    ''      const tomorrow = new Date(today);'' @ nl,
    ''      tomorrow.setDate(tomorrow.getDate() + 1);'' @ nl,
    ''      const tomorrowISO = tomorrow.toISOString();'' @ nl,
    nl,
    ''      const events = await m365.calendar.list({'' @ nl,
    ''        filter: `start/dateTime ge '' @ sq @ ''${todayISO}'' @ sq @ '' and start/dateTime lt '' @ sq @ ''${tomorrowISO}'' @ sq @ ''`,'' @ nl,
    ''        select: '' @ sq @ ''subject,start,end,attendees,isOnlineMeeting,organizer'' @ sq @ nl,
    ''      });'' @ nl,
    nl,
    ''      let totalDuration = 0;'' @ nl,
    ''      let onlineMeetings = 0;'' @ nl,
    ''      let totalAttendees = 0;'' @ nl,
    ''      const meetings = [];'' @ nl,
    nl,
    ''      for (const event of events.value) {'' @ nl,
    ''        const start = new Date(event.start.dateTime);'' @ nl,
    ''        const end = new Date(event.end.dateTime);'' @ nl,
    ''        const duration = (end - start) / (1000 * 60); // minutes'' @ nl,
    nl,
    ''        totalDuration += duration;'' @ nl,
    ''        if (event.isOnlineMeeting) onlineMeetings++;'' @ nl,
    ''        totalAttendees += (event.attendees?.length || 0);'' @ nl,
    nl,
    ''        meetings.push({'' @ nl,
    ''          subject: event.subject,'' @ nl,
    ''          start: event.start.dateTime,'' @ nl,
    ''          duration: Math.round(duration),'' @ nl,
    ''          attendeeCount: event.attendees?.length || 0,'' @ nl,
    ''          isOnline: event.isOnlineMeeting'' @ nl,
    ''        });'' @ nl,
    ''      }'' @ nl,
    nl,
    ''      return {'' @ nl,
    ''        date: today.toISOString().split('' @ sq @ ''T'' @ sq @ '')[0],'' @ nl,
    ''        totalMeetings: events.value.length,'' @ nl,
    ''        totalDuration: Math.round(totalDuration),'' @ nl,
    ''        averageDuration: events.value.length > 0 ? Math.round(totalDuration / events.value.length) : 0,'' @ nl,
    ''        onlineMeetings,'' @ nl,
    ''        totalAttendees,'' @ nl,
    ''        meetings: meetings.sort((a, b) => a.start.localeCompare(b.start))'' @ nl,
    ''      };'' @ nl,
    ''    '']\<close>

definition code_getOverdueTasks :: string where
  \<open>code_getOverdueTasks = concat [
    nl,
    ''      const plans = await m365.planner.listUserPlans();'' @ nl,
    ''      const overdueTasks = [];'' @ nl,
    ''      const today = new Date().toISOString();'' @ nl,
    nl,
    ''      for (const plan of plans.value) {'' @ nl,
    ''        const tasks = await m365.planner.listPlanTasks({ planId: plan.id });'' @ nl,
    nl,
    ''        for (const task of tasks.value) {'' @ nl,
    ''          if (task.dueDateTime && task.dueDateTime < today && task.percentComplete < 100) {'' @ nl,
    ''            const daysOverdue = Math.floor('' @ nl,
    ''              (new Date() - new Date(task.dueDateTime)) / (1000 * 60 * 60 * 24)'' @ nl,
    ''            );'' @ nl,
    nl,
    ''            overdueTasks.push({'' @ nl,
    ''              planName: plan.title,'' @ nl,
    ''              taskTitle: task.title,'' @ nl,
    ''              dueDate: task.dueDateTime.split('' @ sq @ ''T'' @ sq @ '')[0],'' @ nl,
    ''              daysOverdue,'' @ nl,
    ''              priority: task.priority,'' @ nl,
    ''              percentComplete: task.percentComplete'' @ nl,
    ''            });'' @ nl,
    ''          }'' @ nl,
    ''        }'' @ nl,
    ''      }'' @ nl,
    nl,
    ''      return overdueTasks.sort((a, b) => b.daysOverdue - a.daysOverdue);'' @ nl,
    ''    '']\<close>

definition code_getTodaysTodoTasks :: string where
  \<open>code_getTodaysTodoTasks = concat [
    nl,
    ''      const today = new Date();'' @ nl,
    ''      today.setHours(0, 0, 0, 0);'' @ nl,
    ''      const todayISO = today.toISOString().split('' @ sq @ ''T'' @ sq @ '')[0];'' @ nl,
    nl,
    ''      const lists = await m365.todo.listTaskLists();'' @ nl,
    ''      const todaysTasks = [];'' @ nl,
    nl,
    ''      for (const list of lists.value) {'' @ nl,
    ''        const tasks = await m365.todo.listTasks({ listId: list.id });'' @ nl,
    nl,
    ''        for (const task of tasks.value) {'' @ nl,
    ''          if (task.dueDateTime?.dateTime) {'' @ nl,
    ''            const dueDate = task.dueDateTime.dateTime.split('' @ sq @ ''T'' @ sq @ '')[0];'' @ nl,
    ''            if (dueDate === todayISO && task.status !== '' @ sq @ ''completed'' @ sq @ '') {'' @ nl,
    ''              todaysTasks.push({'' @ nl,
    ''                listName: list.displayName,'' @ nl,
    ''                taskTitle: task.title,'' @ nl,
    ''                importance: task.importance,'' @ nl,
    ''                isReminderOn: task.isReminderOn,'' @ nl,
    ''                status: task.status'' @ nl,
    ''              });'' @ nl,
    ''            }'' @ nl,
    ''          }'' @ nl,
    ''        }'' @ nl,
    ''      }'' @ nl,
    nl,
    ''      return {'' @ nl,
    ''        date: todayISO,'' @ nl,
    ''        count: todaysTasks.length,'' @ nl,
    ''        tasks: todaysTasks.sort((a, b) => {'' @ nl,
    ''          const importanceOrder = { high: 0, normal: 1, low: 2 };'' @ nl,
    ''          return importanceOrder[a.importance] - importanceOrder[b.importance];'' @ nl,
    ''        })'' @ nl,
    ''      };'' @ nl,
    ''    '']\<close>

definition code_dailyProductivitySummary :: string where
  \<open>code_dailyProductivitySummary = concat [
    nl,
    ''      const today = new Date();'' @ nl,
    ''      today.setHours(0, 0, 0, 0);'' @ nl,
    ''      const todayISO = today.toISOString();'' @ nl,
    ''      const tomorrow = new Date(today);'' @ nl,
    ''      tomorrow.setDate(tomorrow.getDate() + 1);'' @ nl,
    ''      const tomorrowISO = tomorrow.toISOString();'' @ nl,
    nl,
    ''      // Get emails'' @ nl,
    ''      const emails = await m365.mail.list({'' @ nl,
    ''        filter: `receivedDateTime ge ${todayISO} and receivedDateTime lt ${tomorrowISO}`,'' @ nl,
    ''        select: '' @ sq @ ''isRead,importance'' @ sq @ '','' @ nl,
    ''        top: 100'' @ nl,
    ''      });'' @ nl,
    nl,
    ''      // Get meetings'' @ nl,
    ''      const meetings = await m365.calendar.list({'' @ nl,
    ''        filter: `start/dateTime ge '' @ sq @ ''${todayISO}'' @ sq @ '' and start/dateTime lt '' @ sq @ ''${tomorrowISO}'' @ sq @ ''`,'' @ nl,
    ''        select: '' @ sq @ ''start,end'' @ sq @ nl,
    ''      });'' @ nl,
    nl,
    ''      // Calculate meeting duration'' @ nl,
    ''      let meetingMinutes = 0;'' @ nl,
    ''      for (const event of meetings.value) {'' @ nl,
    ''        const start = new Date(event.start.dateTime);'' @ nl,
    ''        const end = new Date(event.end.dateTime);'' @ nl,
    ''        meetingMinutes += (end - start) / (1000 * 60);'' @ nl,
    ''      }'' @ nl,
    nl,
    ''      const emailStats = {'' @ nl,
    ''        total: emails.value.length,'' @ nl,
    ''        unread: emails.value.filter(e => !e.isRead).length,'' @ nl,
    ''        urgent: emails.value.filter(e => e.importance === '' @ sq @ ''high'' @ sq @ '').length'' @ nl,
    ''      };'' @ nl,
    nl,
    ''      return {'' @ nl,
    ''        date: today.toISOString().split('' @ sq @ ''T'' @ sq @ '')[0],'' @ nl,
    ''        emails: emailStats,'' @ nl,
    ''        meetings: {'' @ nl,
    ''          count: meetings.value.length,'' @ nl,
    ''          totalMinutes: Math.round(meetingMinutes)'' @ nl,
    ''        },'' @ nl,
    ''        summary: `${emailStats.total} emails (${emailStats.unread} unread, ${emailStats.urgent} urgent), ${meetings.value.length} meetings (${Math.round(meetingMinutes / 60)}h ${Math.round(meetingMinutes % 60)}m)`'' @ nl,
    ''      };'' @ nl,
    ''    '']\<close>

text \<open>The object literal \<^verbatim>\<open>{}\<close>.\<close>

definition empty_skill :: skill where
  "empty_skill =
     \<lparr> id' = None, name = None, description = None, category = None, code = None,
       parameters = None, returnType = None, author = None, tags = None,
       createdAt = None, updatedAt = None, usageCount = None, isPublic = None,
       isBuiltin = None \<rparr>"

definition BUILTIN_SKILLS :: "skill list" where
  "BUILTIN_SKILLS =
     [ empty_skill\<lparr>
         name := Some ''summarizeTodaysEmails'',
         description := Some (''Get a comprehensive summary of today'' @ sq @
           ''s emails including count, unread count, urgent emails, and top senders''),
         category := Some ''mail'',
         code := Some code_summarizeTodaysEmails,
         tags := Some [''email'', ''summary'', ''daily'', ''report''],
         isPublic := Some True,
         isBuiltin := Some True \<rparr>,
       empty_skill\<lparr>
         name := Some ''getUnreadUrgentEmails'',
         description := Some
           ''Get all unread high-priority emails with sender, subject, and received time'',
         category := Some ''mail'',
         code := Some code_getUnreadUrgentEmails,
         tags := Some [''email'', ''urgent'', ''unread'', ''filter''],
         isPublic := Some True,
         isBuiltin := Some True \<rparr>,
       empty_skill\<lparr>
         name := Some ''analyzeTodaysMeetings'',
         description := Some (''Analyze today'' @ sq @
           ''s calendar meetings including duration, attendee count, and meeting types''),
         category := Some ''calendar'',
         code := Some code_analyzeTodaysMeetings,
         tags := Some [''calendar'', ''meetings'', ''analysis'', ''daily''],
         isPublic := Some True,
         isBuiltin := Some True \<rparr>,
       empty_skill\<lparr>
         name := Some ''getOverdueTasks'',
         description := Some ''Get all overdue Planner tasks across all plans'',
         category := Some ''planner'',
         code := Some code_getOverdueTasks,
         tags := Some [''planner'', ''tasks'', ''overdue'', ''report''],
         isPublic := Some True,
         isBuiltin := Some True \<rparr>,
       empty_skill\<lparr>
         name := Some ''getTodaysTodoTasks'',
         description := Some ''Get all To Do tasks due today across all lists'',
         category := Some ''todo'',
         code := Some code_getTodaysTodoTasks,
         tags := Some [''todo'', ''tasks'', ''daily'', ''due''],
         isPublic := Some True,
         isBuiltin := Some True \<rparr>,
       empty_skill\<lparr>
         name := Some ''dailyProductivitySummary'',
         description := Some ''Combined summary of emails, meetings, and tasks for today'',
         category := Some ''general'',
         code := Some code_dailyProductivitySummary,
         tags := Some [''productivity'', ''summary'', ''daily'', ''report'', ''overview''],
         isPublic := Some True,
         isBuiltin := Some True \<rparr> ]"

text \<open>
  \<^verbatim>\<open>loadBuiltinSkills\<close> walks the catalogue, whose objects \<^verbatim>\<open>save\<close> assigns to: the
  loop takes the catalogue as it stands and returns it as the call leaves it, with the
  count and the store. \<open>E i\<close> is the environment \<^verbatim>\<open>save\<close> meets at entry \<open>i\<close>. A
  throwing \<^verbatim>\<open>save\<close> is caught and logged, and the loop goes on.
\<close>

fun load_loop ::
  "(nat \<Rightarrow> env) \<Rightarrow> nat \<Rightarrow> skill list \<Rightarrow> store \<Rightarrow> nat \<Rightarrow> nat \<times> skill list \<times> store" where
  "load_loop E i [] st loaded = (loaded, [], st)"
| "load_loop E i (skillDef # rest) st loaded =
     (if (case name skillDef of
            None \<Rightarrow> False
          | Some n \<Rightarrow> n \<noteq> [] \<and> getByName st n \<noteq> None)
      then (case load_loop E (i + 1) rest st loaded of
              (n, rest', st') \<Rightarrow> (n, skillDef # rest', st'))
      else (case save (E i) skillDef st of
              (Inl err, st1) \<Rightarrow>
                (case load_loop E (i + 1) rest st1 loaded of
                   (n, rest', st') \<Rightarrow> (n, stamp (E i) skillDef # rest', st'))
            | (Inr saved, st1) \<Rightarrow>
                (case load_loop E (i + 1) rest st1 (loaded + 1) of
                   (n, rest', st') \<Rightarrow> (n, stamp (E i) skillDef # rest', st'))))"

definition loadBuiltinSkills ::
  "(nat \<Rightarrow> env) \<Rightarrow> skill list \<Rightarrow> store \<Rightarrow> nat \<times> skill list \<times> store" where
  "loadBuiltinSkills E catalogue st = load_loop E 0 catalogue st 0"

section \<open>The tool handlers (src/skill-tools.ts)\<close>






datatype delete_response = DeleteRefused | DeleteNotFound string | Deleted string

text \<open>The handler of \<^verbatim>\<open>delete-m365-skill\<close>.\<close>

definition delete_m365_skill :: "store \<Rightarrow> string \<Rightarrow> delete_response \<times> store" where
  "delete_m365_skill st skillId =
     (if (case get st skillId of None \<Rightarrow> False | Some skill \<Rightarrow> isBuiltin skill = Some True)
      then (DeleteRefused, st)
      else (case delete st skillId of
              (False, st') \<Rightarrow> (DeleteNotFound skillId, st')
            | (True, st') \<Rightarrow> (Deleted skillId, st')))"

section \<open>Specification predicates and test data\<close>

text \<open>
  The directory as \<^verbatim>\<open>save\<close> keeps it for records of type \<^verbatim>\<open>M365Skill\<close>: no two
  files share a name, the file \<^verbatim>\<open><k>.json\<close> holds the record whose identifier is
  \<open>k\<close>, and each record has its required fields and a usage count.
\<close>

definition record_ok :: "string \<times> skill \<Rightarrow> bool" where
  "record_ok p \<longleftrightarrow>
     id' (snd p) = Some (fst p) \<and> fst p \<noteq> [] \<and> \<not> missing_required (snd p) \<and>
     usageCount (snd p) \<noteq> None"

definition store_ok :: "store \<Rightarrow> bool" where
  "store_ok st \<longleftrightarrow> distinct (map fst st) \<and> list_all record_ok st"


text \<open>The skill of the test \<^verbatim>\<open>should create a new skill with generated ID\<close>.\<close>

definition testSkill :: skill where
  \<open>testSkill = empty_skill\<lparr> name := Some ''testSkill'', description := Some ''A test skill'',
     category := Some ''general'', code := Some ''return "test";'' \<rparr>\<close>

text \<open>An environment whose clock moves on by a millisecond between its two readings.\<close>

definition tick_env :: env where
  "tick_env = \<lparr> randomUUID = ''1b9d6bcd-bbfd-4b2d-9b5d-ab8dfbbd4bed'',
                 now_createdAt = ''2025-11-05T10:00:00.000Z'',
                 now_updatedAt = ''2025-11-05T10:00:00.001Z'' \<rparr>"

text \<open>
  The filter predicates in the words of the specification: each supplied predicate must
  hold. \<open>supplied\<close> says when a text filter (category, author) counts as supplied.
\<close>

definition filter_matches :: "(string option \<Rightarrow> bool) \<Rightarrow> SkillFilters option \<Rightarrow> skill \<Rightarrow> bool" where
  "filter_matches supplied filters skill =
     (case filters of
        None \<Rightarrow> True
      | Some f \<Rightarrow>
          (supplied (filter_category f) \<longrightarrow> category skill = filter_category f) \<and>
          (supplied (filter_author f) \<longrightarrow> author skill = filter_author f) \<and>
          (filter_isPublic f \<noteq> None \<longrightarrow> isPublic skill = filter_isPublic f) \<and>
          (filter_isBuiltin f \<noteq> None \<longrightarrow>
             filter_isBuiltin f = Some (case isBuiltin skill of None \<Rightarrow> False | Some b \<Rightarrow> b)) \<and>
          (case filter_tags f of
             None \<Rightarrow> True
           | Some ftags \<Rightarrow>
               (\<exists>tag \<in> set ftags. case tags skill of None \<Rightarrow> False | Some ts \<Rightarrow> tag \<in> set ts)))"








text \<open>An environment for each catalogue entry, with identifiers that differ from entry to entry.\<close>

definition seed_env :: "nat \<Rightarrow> env" where
  "seed_env j = \<lparr> randomUUID = replicate (Suc j) (CHR ''u''),
                   now_createdAt = ''2025-11-05T10:00:00.000Z'',
                   now_updatedAt = ''2025-11-05T10:00:00.000Z'' \<rparr>"

section \<open>Basic facts\<close>

lemma truthy_Some [simp]: "truthy (Some t) \<longleftrightarrow> t \<noteq> []"
  by (simp add: truthy_def)

lemma truthy_None [simp]: "\<not> truthy None"
  by (simp add: truthy_def)

lemma stamp_required [simp]:
  "name (stamp e skill) = name skill" "description (stamp e skill) = description skill"
  "code (stamp e skill) = code skill" "category (stamp e skill) = category skill"
  by (simp_all add: stamp_def Let_def)

lemma missing_required_stamp [simp]: "missing_required (stamp e skill) = missing_required skill"
  by (simp add: missing_required_def)

lemma stamp_new:
  assumes "\<not> truthy (id' skill)"
  shows "id' (stamp e skill) = Some (randomUUID e)"
    and "createdAt (stamp e skill) = Some (now_createdAt e)"
    and "updatedAt (stamp e skill) = Some (now_updatedAt e)"
    and "usageCount (stamp e skill) = Some 0"
    and "isBuiltin (stamp e skill) = (if isBuiltin skill = None then Some False else isBuiltin skill)"
  using assms by (simp_all add: stamp_def Let_def)


lemma save_new:
  assumes "\<not> truthy (id' skill)" and "\<not> missing_required skill"
  shows "save e skill st = (Inr (stamp e skill), writeFile st (randomUUID e) (stamp e skill))"
  using assms by (simp add: save_def Let_def template_def stamp_new)

lemma testSkill_new: "\<not> truthy (id' testSkill)" "\<not> missing_required testSkill"
  by (simp_all add: testSkill_def empty_skill_def missing_required_def)

section \<open>The code validator\<close>

lemma starts_with_prefix: "starts_with t p \<longleftrightarrow> prefix p t"
  by (induction t p rule: starts_with.induct) auto

lemma str_includes_sublist: "str_includes t p \<longleftrightarrow> sublist p t"
proof (induction t)
  case Nil
  then show ?case by simp
next
  case (Cons c cs)
  then show ?case
    by (simp add: starts_with_prefix sublist_Cons_right)
qed

lemma scan_patterns_filter:
  "scan_patterns t ps errs =
     errs @ map (\<lambda>p. ''Forbidden pattern detected: '' @ p) (filter (str_includes t) ps)"
  by (induction ps arbitrary: errs) auto

lemma filter_str_includes: "filter (str_includes t) ps = filter (\<lambda>p. sublist p t) ps"
  by (induction ps) (simp_all add: str_includes_sublist)

text \<open>
  C1 (as amended). \<^verbatim>\<open>validateCode\<close> reports a script as valid exactly when none of the
  eight deny-listed patterns occurs in its text as a contiguous substring, and its error
  list holds one message per pattern that occurs, in the order of the deny-list. Hence a
  script that only calls capability operations is accepted exactly when its text, string
  literals included, spells none of the patterns.
\<close>

theorem validateCode_deny_list:
  "valid (validateCode t) = (\<not> (\<exists>p \<in> set forbidden. sublist p t)) \<and>
   errors (validateCode t) =
     map (\<lambda>p. ''Forbidden pattern detected: '' @ p) (filter (\<lambda>p. sublist p t) forbidden)"
  by (auto simp: validateCode_def Let_def scan_patterns_filter filter_str_includes
      filter_empty_conv)

theorem validateCode_deny_list_witness:
  \<open>\<not> valid (validateCode ''eval("malicious code")'') \<and>
   errors (validateCode ''eval("malicious code")'') = [''Forbidden pattern detected: eval('']\<close>
  using validateCode_deny_list [of \<open>''eval("malicious code")''\<close>]
  by (simp add: forbidden_def str_includes_sublist [symmetric])

text \<open>
  C1 as stated fails: the script below only calls the capability operation
  \<^verbatim>\<open>m365.sharepoint.searchSites\<close> and returns its value, and it is rejected, because
  the search text it passes spells a deny-listed pattern.
\<close>

theorem validateCode_capability_script_counterexample:
  \<open>valid (validateCode ''return await m365.sharepoint.searchSites("child_process");'') = False\<close>
  by (simp add: validateCode_def forbidden_def)

text \<open>The script of the test \<^verbatim>\<open>should accept safe code\<close> is accepted.\<close>

lemma validateCode_safe_code:
  \<open>validateCode (nl @ ''          const messages = await m365.mail.list({ top: 10 });'' @ nl @
     ''          return messages.value.filter(m => m.isRead === false);'' @ nl @ ''        '')
   = \<lparr> valid = True, errors = [] \<rparr>\<close>
  by (simp add: validateCode_def forbidden_def nl_def)

section \<open>Saving\<close>

text \<open>
  C2 (as amended). Saving a partial skill that has no identifier and has its four required
  fields succeeds; the saved record has the generated identifier, which is not empty, a
  usage count of 0 and \<^verbatim>\<open>isBuiltin\<close> false unless the caller supplied it. Its
  \<^verbatim>\<open>createdAt\<close> and \<^verbatim>\<open>updatedAt\<close> are two successive readings of the clock: they are
  equal exactly when the two readings are.
\<close>

theorem save_creation:
  assumes "\<not> truthy (id' skill)" and "\<not> missing_required skill" and "randomUUID e \<noteq> []"
  shows "save e skill st = (Inr (stamp e skill), writeFile st (randomUUID e) (stamp e skill)) \<and>
         id' (stamp e skill) = Some (randomUUID e) \<and> truthy (id' (stamp e skill)) \<and>
         createdAt (stamp e skill) = Some (now_createdAt e) \<and>
         updatedAt (stamp e skill) = Some (now_updatedAt e) \<and>
         (createdAt (stamp e skill) = updatedAt (stamp e skill)
            \<longleftrightarrow> now_createdAt e = now_updatedAt e) \<and>
         usageCount (stamp e skill) = Some 0 \<and>
         isBuiltin (stamp e skill) = (if isBuiltin skill = None then Some False else isBuiltin skill)"
  using assms by (simp add: save_def Let_def template_def stamp_new)

theorem save_creation_witness:
  "save tick_env testSkill [] =
     (Inr (stamp tick_env testSkill), [(randomUUID tick_env, stamp tick_env testSkill)]) \<and>
   usageCount (stamp tick_env testSkill) = Some 0 \<and>
   isBuiltin (stamp tick_env testSkill) = Some False"
proof -
  have u: "randomUUID tick_env \<noteq> []"
    by (simp add: tick_env_def)
  have b: "isBuiltin testSkill = None"
    by (simp add: testSkill_def empty_skill_def)
  from save_creation [OF testSkill_new u, of "[]"] b show ?thesis
    by (simp add: writeFile_def)
qed

text \<open>
  C2 as stated fails: when the clock moves on between the two readings that \<^verbatim>\<open>save\<close>
  takes, the record it returns for a new skill has \<^verbatim>\<open>createdAt\<close> different from
  \<^verbatim>\<open>updatedAt\<close>.
\<close>

theorem save_creation_timestamps_counterexample:
  "fst (save tick_env testSkill []) = Inr (stamp tick_env testSkill) \<and>
   createdAt (stamp tick_env testSkill) = Some ''2025-11-05T10:00:00.000Z'' \<and>
   updatedAt (stamp tick_env testSkill) = Some ''2025-11-05T10:00:00.001Z'' \<and>
   createdAt (stamp tick_env testSkill) \<noteq> updatedAt (stamp tick_env testSkill)"
proof -
  have "fst (save tick_env testSkill []) = Inr (stamp tick_env testSkill)"
    by (simp add: save_def Let_def testSkill_new)
  moreover have "createdAt (stamp tick_env testSkill) = Some ''2025-11-05T10:00:00.000Z''"
    by (simp add: stamp_new testSkill_new) (simp add: tick_env_def)
  moreover have "updatedAt (stamp tick_env testSkill) = Some ''2025-11-05T10:00:00.001Z''"
    by (simp add: stamp_new testSkill_new) (simp add: tick_env_def)
  ultimately show ?thesis by simp
qed

text \<open>
  C3. When the name, the description, the code or the category of the partial skill is
  absent or empty, \<^verbatim>\<open>save\<close> throws the missing-fields error and the store is what it
  was: \<^verbatim>\<open>get\<close> and \<^verbatim>\<open>list\<close> answer as before the call.
\<close>

theorem save_rejects_incomplete:
  assumes "\<not> truthy (name skill) \<or> \<not> truthy (description skill) \<or>
           \<not> truthy (code skill) \<or> \<not> truthy (category skill)"
  shows "fst (save e skill st) = Inl MissingRequiredFields \<and>
         snd (save e skill st) = st \<and>
         get (snd (save e skill st)) i = get st i \<and>
         list_skills filters (snd (save e skill st)) = list_skills filters st"
proof -
  from assms have "missing_required (stamp e skill)"
    by (simp add: missing_required_def)
  then have "save e skill st = (Inl MissingRequiredFields, st)"
    by (simp add: save_def Let_def)
  then show ?thesis by simp
qed

theorem save_rejects_incomplete_witness:
  "fst (save tick_env (testSkill\<lparr> code := None \<rparr>) [(''k'', testSkill)])
     = Inl MissingRequiredFields \<and>
   snd (save tick_env (testSkill\<lparr> code := None \<rparr>) [(''k'', testSkill)]) = [(''k'', testSkill)]"
  using save_rejects_incomplete [of "testSkill\<lparr> code := None \<rparr>" tick_env "[(''k'', testSkill)]"]
  by simp

section \<open>Deleting\<close>

lemma get_unlink: "get (unlink st i) i = None"
  by (simp add: get_def readFile_def unlink_def delete_conv')

text \<open>
  C8. The handler of \<^verbatim>\<open>delete-m365-skill\<close> refuses to delete a stored record whose
  \<^verbatim>\<open>isBuiltin\<close> is true and leaves the store as it was, so the record remains; for a
  stored record that is not built-in it reports the deletion, and \<^verbatim>\<open>get\<close> on the
  resulting store finds nothing under that identifier.
\<close>

theorem delete_tool_protects_builtin:
  "(get st i = Some s \<and> isBuiltin s = Some True \<longrightarrow>
      delete_m365_skill st i = (DeleteRefused, st)) \<and>
   (get st i = Some s \<and> isBuiltin s \<noteq> Some True \<longrightarrow>
      fst (delete_m365_skill st i) = Deleted i \<and> get (snd (delete_m365_skill st i)) i = None)"
  by (auto simp: delete_m365_skill_def delete_def get_def get_unlink [unfolded get_def])

theorem delete_tool_protects_builtin_witness:
  "delete_m365_skill [(''b'', testSkill\<lparr> isBuiltin := Some True \<rparr>), (''k'', testSkill)] ''b''
     = (DeleteRefused, [(''b'', testSkill\<lparr> isBuiltin := Some True \<rparr>), (''k'', testSkill)]) \<and>
   fst (delete_m365_skill [(''b'', testSkill\<lparr> isBuiltin := Some True \<rparr>), (''k'', testSkill)] ''k'')
     = Deleted ''k'' \<and>
   get (snd (delete_m365_skill
              [(''b'', testSkill\<lparr> isBuiltin := Some True \<rparr>), (''k'', testSkill)] ''k'')) ''k''
     = None"
  using
    delete_tool_protects_builtin
      [of "[(''b'', testSkill\<lparr> isBuiltin := Some True \<rparr>), (''k'', testSkill)]" "''b''"
          "testSkill\<lparr> isBuiltin := Some True \<rparr>"]
    delete_tool_protects_builtin
      [of "[(''b'', testSkill\<lparr> isBuiltin := Some True \<rparr>), (''k'', testSkill)]" "''k''" testSkill]
  by (simp add: get_def readFile_def testSkill_def empty_skill_def)

section \<open>Listing\<close>

lemma collect_filter:
  "collect filters st acc = acc @ filter (\<lambda>s. \<not> skipped filters s) (map snd st)"
  by (induction st arbitrary: acc) auto

lemma skipped_matches: "skipped filters s \<longleftrightarrow> \<not> filter_matches truthy filters s"
  by (auto simp: skipped_def filter_matches_def list_ex_iff split: option.splits)

lemma filter_matches_None [simp]: "filter_matches supplied None s"
  by (simp add: filter_matches_def)

lemma mset_insert_sorted: "mset (insert_sorted cmp x ys) = add_mset x (mset ys)"
  by (induction ys) auto

lemma mset_js_sort: "mset (js_sort cmp xs) = mset xs"
  by (induction xs) (auto simp: js_sort_def mset_insert_sorted)

lemma set_js_sort [simp]: "set (js_sort cmp xs) = set xs"
  using mset_js_sort [of cmp xs] by (metis set_mset_mset)

lemma set_list_skills_None: "set (list_skills None st) = snd ` set st"
  by (simp add: list_skills_def collect_filter skipped_matches)











section \<open>Lookup by name\<close>


lemma getByName_None_iff:
  "getByName st n = None \<longleftrightarrow> (\<forall>s \<in> snd ` set st. name s \<noteq> Some n)"
  by (simp add: getByName_def find_None_iff set_list_skills_None)




section \<open>Usage accounting\<close>








text \<open>The empty directory is well-formed, and so is the record a creation writes.\<close>

lemma store_ok_empty: "store_ok []"
  by (simp add: store_ok_def)

lemma save_new_record_ok:
  assumes "\<not> truthy (id' skill)" and "\<not> missing_required skill" and "randomUUID e \<noteq> []"
  shows "record_ok (randomUUID e, stamp e skill)"
  using assms by (simp add: record_ok_def stamp_new)





section \<open>Executing a skill\<close>





section \<open>Seeding the built-in skills\<close>







lemma builtin_codes_nonempty:
  "code_summarizeTodaysEmails \<noteq> []" "code_getUnreadUrgentEmails \<noteq> []"
  "code_analyzeTodaysMeetings \<noteq> []" "code_getOverdueTasks \<noteq> []"
  "code_getTodaysTodoTasks \<noteq> []" "code_dailyProductivitySummary \<noteq> []"
  by (simp_all add: code_summarizeTodaysEmails_def code_getUnreadUrgentEmails_def
      code_analyzeTodaysMeetings_def code_getOverdueTasks_def code_getTodaysTodoTasks_def
      code_dailyProductivitySummary_def nl_def)



lemma seed_uuid: "randomUUID (seed_env j) = replicate (Suc j) (CHR ''u'')"
  by (simp add: seed_env_def)

text \<open>Seeding an empty directory loads the six catalogue entries.\<close>

lemma loadBuiltinSkills_fresh_count: "fst (loadBuiltinSkills seed_env BUILTIN_SKILLS []) = 6"
  by (simp add: loadBuiltinSkills_def BUILTIN_SKILLS_def save_new empty_skill_def
      missing_required_def builtin_codes_nonempty writeFile_def getByName_None_iff seed_uuid)



end
